theory Spec2Isabelle
  imports Complex_Main "HOL-Library.Multiset" "HOL-Library.Signed_Division"
begin

section \<open>Data model\<close>

text \<open>
  The eviction selector of \<^verbatim>\<open>pkg/pressurecooker/evict_selection.go\<close> reads a few fields
  of a Kubernetes pod. The records below keep the nesting and the names of the Go structs
  (\<^verbatim>\<open>pod.Status.QOSClass\<close>, \<^verbatim>\<open>pod.Spec.PriorityClassName\<close>, ...); fields that the
  package never reads are left out. String-typed Go fields are strings, the annotation map
  is a partial function, the optional start time (\<^verbatim>\<open>*metav1.Time\<close>, possibly nil) is an option.

  An instant (\<^verbatim>\<open>time.Time\<close>) is its wall-clock reading in nanoseconds, a
  \<^verbatim>\<open>time.Duration\<close> is a number of nanoseconds. A candidate's \<^verbatim>\<open>Pod\<close> pointer is
  modelled by the descriptor it points at: the package never assigns through that pointer,
  and \<^verbatim>\<open>PodCandidateSetFromPodList\<close> only stores addresses of list items, which are not
  nil. The \<^verbatim>\<open>Score\<close> of a candidate is a Go \<^verbatim>\<open>int\<close>, modelled as an unbounded integer:
  by lemma \<open>final_score_bounds\<close> a selection moves a score by less than
  \<open>41000 + 10000 * n\<close> for a pod with \<open>n\<close> owner references, so that a 64-bit score that
  starts at zero cannot wrap around for any pod that fits into memory.
\<close>

type_synonym Time = int
type_synonym Duration = int

record OwnerReference =
  Kind :: string

record PodStatus =
  QOSClass :: string
  StartTime :: "Time option"

record PodSpec =
  PriorityClassName :: string

record Pod =
  Namespace :: string
  Name :: string
  OwnerReferences :: "OwnerReference list"
  Annotations :: "string \<rightharpoonup> string"
  Spec :: PodSpec
  Status :: PodStatus

record PodList =
  Items :: "Pod list"

record PodCandidate =
  Pod :: Pod
  Score :: int

type_synonym PodCandidateSet = "PodCandidate list"

subsection \<open>Constants of the libraries\<close>

definition PodQOSGuaranteed :: string where "PodQOSGuaranteed = ''Guaranteed''"
definition PodQOSBurstable :: string where "PodQOSBurstable = ''Burstable''"
definition PodQOSBestEffort :: string where "PodQOSBestEffort = ''BestEffort''"

definition Nanosecond :: Duration where "Nanosecond = 1"
definition Second :: Duration where "Second = 1000000000 * Nanosecond"

definition minDuration :: Duration where "minDuration = - (2 ^ 63)"
definition maxDuration :: Duration where "maxDuration = 2 ^ 63 - 1"

text \<open>
  \<^verbatim>\<open>t.Sub(u)\<close> of package \<^verbatim>\<open>time\<close>: the duration \<open>t - u\<close>, replaced by the largest
  (smallest) duration when the difference does not fit into 64 bits.
\<close>

definition Sub :: "Time \<Rightarrow> Time \<Rightarrow> Duration" where
  "Sub t u =
     (if t - u > maxDuration then maxDuration
      else if t - u < minDuration then minDuration
      else t - u)"

text \<open>
  \<^verbatim>\<open>math.Log1p\<close> and \<^verbatim>\<open>math.Floor\<close> on \<^verbatim>\<open>float64\<close> are taken as the real functions
  they approximate. The argument of \<^verbatim>\<open>Log1p\<close> in this package is a whole number of seconds
  between \<open>1\<close> and \<open>9223372036\<close> (lemma \<open>age_seconds_bounds\<close>), which \<^verbatim>\<open>float64\<close>
  represents exactly. For such a number \<open>a\<close> the distance of \<open>ln (1 + a)\<close> from the nearest
  integer is more than \<open>1 / 10 ^ 11\<close>, several thousand times the rounding error of a
  \<^verbatim>\<open>float64\<close> of that size, so that the rounded logarithm has the same floor.
\<close>

definition Log1p :: "real \<Rightarrow> real" where
  "Log1p x = ln (1 + x)"

definition Floor :: "real \<Rightarrow> real" where
  "Floor x = of_int \<lfloor>x\<rfloor>"

text \<open>The conversion \<^verbatim>\<open>int(x)\<close> of a \<^verbatim>\<open>float64\<close>: the fractional part is discarded.\<close>

definition int_of_float64 :: "real \<Rightarrow> int" where
  "int_of_float64 x = (if x < 0 then \<lceil>x\<rceil> else \<lfloor>x\<rfloor>)"

section \<open>Candidate sets\<close>

text \<open>A \<^verbatim>\<open>for i := range s\<close> loop whose body updates the slice in place.\<close>

definition for_range :: "(nat \<Rightarrow> 'a list \<Rightarrow> 'a list) \<Rightarrow> 'a list \<Rightarrow> 'a list" where
  "for_range body s = fold body [0..<length s] s"

definition Len :: "PodCandidateSet \<Rightarrow> nat" where
  "Len s = length s"

definition Less :: "PodCandidateSet \<Rightarrow> nat \<Rightarrow> nat \<Rightarrow> bool" where
  "Less s i j = (Score (s ! i) < Score (s ! j))"

definition Swap :: "PodCandidateSet \<Rightarrow> nat \<Rightarrow> nat \<Rightarrow> PodCandidateSet" where
  "Swap s i j = (let x = s ! i; s1 = s[i := s ! j] in s1[j := x])"

definition PodCandidateSetFromPodList :: "PodList \<Rightarrow> PodCandidateSet" where
  "PodCandidateSetFromPodList l = map (\<lambda>p. \<lparr>Pod = p, Score = 0\<rparr>) (Items l)"

subsection \<open>The four scoring passes\<close>

definition scoreByQOSClass_body :: "nat \<Rightarrow> PodCandidateSet \<Rightarrow> PodCandidateSet" where
  "scoreByQOSClass_body i s =
     (if QOSClass (Status (Pod (s ! i))) = PodQOSBestEffort
        then s[i := (s ! i)\<lparr>Score := Score (s ! i) + 100\<rparr>]
      else if QOSClass (Status (Pod (s ! i))) = PodQOSBurstable
        then s[i := (s ! i)\<lparr>Score := Score (s ! i) + 100\<rparr>]
      else s)"

definition scoreByQOSClass :: "PodCandidateSet \<Rightarrow> PodCandidateSet" where
  "scoreByQOSClass s = for_range scoreByQOSClass_body s"

text \<open>
  \<^verbatim>\<open>scoreByAge\<close> reads the clock once (\<^verbatim>\<open>time.Now()\<close>); the reading is the parameter
  \<open>now\<close>. The division \<^verbatim>\<open>delta / time.Second\<close> truncates towards zero.
\<close>

definition scoreByAge_body :: "Time \<Rightarrow> Duration \<Rightarrow> nat \<Rightarrow> PodCandidateSet \<Rightarrow> PodCandidateSet" where
  "scoreByAge_body now minPodAge i s =
     (case StartTime (Status (Pod (s ! i))) of
        None \<Rightarrow> s[i := (s ! i)\<lparr>Score := Score (s ! i) - 10000\<rparr>]
      | Some start \<Rightarrow>
          (let delta = Sub now start in
           if delta < minPodAge then s[i := (s ! i)\<lparr>Score := Score (s ! i) - 10000\<rparr>]
           else
             (let age0 = delta sdiv Second;
                  age = (if age0 < 1 then 1 else age0)
              in s[i := (s ! i)\<lparr>Score := Score (s ! i)
                                    + int_of_float64 (Floor (Log1p (of_int age)))\<rparr>])))"

definition scoreByAge :: "Time \<Rightarrow> Duration \<Rightarrow> PodCandidateSet \<Rightarrow> PodCandidateSet" where
  "scoreByAge now minPodAge s = for_range (scoreByAge_body now minPodAge) s"

text \<open>The inner loop of \<^verbatim>\<open>scoreByOwnerType\<close> over the owner references of candidate \<open>i\<close>.\<close>

definition scoreByOwnerType_ref :: "nat \<Rightarrow> OwnerReference \<Rightarrow> PodCandidateSet \<Rightarrow> PodCandidateSet" where
  "scoreByOwnerType_ref i o' s =
     (if Kind o' = ''ReplicaSet'' then s[i := (s ! i)\<lparr>Score := Score (s ! i) + 100\<rparr>]
      else if Kind o' = ''StatefulSet'' then s[i := (s ! i)\<lparr>Score := Score (s ! i) - 10000\<rparr>]
      else if Kind o' = ''DaemonSet'' then s[i := (s ! i)\<lparr>Score := Score (s ! i) - 10000\<rparr>]
      else s)"

definition scoreByOwnerType_body :: "nat \<Rightarrow> PodCandidateSet \<Rightarrow> PodCandidateSet" where
  "scoreByOwnerType_body i s =
     (let s1 = (if length (OwnerReferences (Pod (s ! i))) = 0
                  then s[i := (s ! i)\<lparr>Score := Score (s ! i) - 1000\<rparr>]
                else s)
      in fold (scoreByOwnerType_ref i) (OwnerReferences (Pod (s1 ! i))) s1)"

definition scoreByOwnerType :: "PodCandidateSet \<Rightarrow> PodCandidateSet" where
  "scoreByOwnerType s = for_range scoreByOwnerType_body s"

definition scoreByCriticality_body :: "nat \<Rightarrow> PodCandidateSet \<Rightarrow> PodCandidateSet" where
  "scoreByCriticality_body i s =
     (let s1 = (if Namespace (Pod (s ! i)) = ''kube-system''
                  then s[i := (s ! i)\<lparr>Score := Score (s ! i) - 10000\<rparr>]
                else s);
          s2 = (if PriorityClassName (Spec (Pod (s1 ! i))) = ''system-cluster-critical''
                  then s1[i := (s1 ! i)\<lparr>Score := Score (s1 ! i) - 10000\<rparr>]
                else if PriorityClassName (Spec (Pod (s1 ! i))) = ''system-node-critical''
                  then s1[i := (s1 ! i)\<lparr>Score := Score (s1 ! i) - 10000\<rparr>]
                else s1)
      in (if Annotations (Pod (s2 ! i)) ''scheduler.alpha.kubernetes.io/critical-pod'' \<noteq> None
            then s2[i := (s2 ! i)\<lparr>Score := Score (s2 ! i) - 10000\<rparr>]
          else s2))"

definition scoreByCriticality :: "PodCandidateSet \<Rightarrow> PodCandidateSet" where
  "scoreByCriticality s = for_range scoreByCriticality_body s"

subsection \<open>Sorting\<close>

text \<open>
  \<^verbatim>\<open>sort.Reverse(s)\<close> keeps \<^verbatim>\<open>Len\<close> and \<^verbatim>\<open>Swap\<close> and exchanges the arguments of
  \<^verbatim>\<open>Less\<close>.
\<close>

definition Reverse_Less :: "PodCandidateSet \<Rightarrow> nat \<Rightarrow> nat \<Rightarrow> bool" where
  "Reverse_Less s i j = Less s j i"

text \<open>
  \<^verbatim>\<open>sort.Stable\<close> belongs to Go's library. It sorts blocks of 20 elements by insertion
  (\<^verbatim>\<open>for j := i; j > a && data.Less(j, j-1); j-- { data.Swap(j, j-1) }\<close>) and merges the
  blocks stably; its contract is that the result is ordered by \<^verbatim>\<open>Less\<close> and that elements
  none of which is less than the other keep their order. The model is the insertion sort
  on the whole slice, driven by the \<^verbatim>\<open>Less\<close> and \<^verbatim>\<open>Swap\<close> methods of the set; lemma
  \<open>Stable_unique\<close> shows that the contract leaves no other result.
\<close>

fun insertionSort_inner :: "PodCandidateSet \<Rightarrow> nat \<Rightarrow> PodCandidateSet" where
  "insertionSort_inner s 0 = s"
| "insertionSort_inner s (Suc j) =
     (if Reverse_Less s (Suc j) j then insertionSort_inner (Swap s (Suc j) j) j else s)"

definition insertionSort :: "PodCandidateSet \<Rightarrow> PodCandidateSet" where
  "insertionSort s = fold (\<lambda>i s. insertionSort_inner s i) [1..<Len s] s"

definition Stable_Reverse :: "PodCandidateSet \<Rightarrow> PodCandidateSet" where
  "Stable_Reverse s = insertionSort s"

subsection \<open>Selection\<close>

text \<open>
  The final loop of \<^verbatim>\<open>SelectPodForEviction\<close>: the first candidate whose score is not
  negative, or nil. The two \<^verbatim>\<open>glog.Infof\<close> loops only write log lines.
\<close>

fun first_non_negative :: "PodCandidateSet \<Rightarrow> Pod option" where
  "first_non_negative [] = None"
| "first_non_negative (c # cs) = (if Score c < 0 then first_non_negative cs else Some (Pod c))"

definition score_all :: "Time \<Rightarrow> Duration \<Rightarrow> PodCandidateSet \<Rightarrow> PodCandidateSet" where
  "score_all now minPodAge s =
     scoreByCriticality (scoreByOwnerType (scoreByQOSClass (scoreByAge now minPodAge s)))"

definition ranked :: "Time \<Rightarrow> Duration \<Rightarrow> PodCandidateSet \<Rightarrow> PodCandidateSet" where
  "ranked now minPodAge s = Stable_Reverse (score_all now minPodAge s)"

definition SelectPodForEviction :: "Time \<Rightarrow> Duration \<Rightarrow> PodCandidateSet \<Rightarrow> Pod option" where
  "SelectPodForEviction now minPodAge s = first_non_negative (ranked now minPodAge s)"

section \<open>The pressure watcher\<close>

text \<open>
  \<^verbatim>\<open>NewWatcher\<close> asks \<^verbatim>\<open>procfs.NewDefaultFS()\<close> for the proc file system of the
  host. What that call returns is outside the package: it is the parameter
  \<open>newDefaultFS\<close>, an error or a handle. A \<^verbatim>\<open>float64\<close> threshold is taken as a real
  number (the comparison with zero is all that is done with it).
\<close>

record 'fs Watcher =
  TickerInterval :: Duration
  PressureThreshold :: real
  proc :: 'fs
  isCurrentlyHigh :: bool

definition NewWatcher :: "real \<Rightarrow> 'e + 'fs \<Rightarrow> 'e + 'fs Watcher" where
  "NewWatcher pressureThreshold newDefaultFS =
     (let pressureThreshold' = (if pressureThreshold = 0 then 25 else pressureThreshold) in
      case newDefaultFS of
        Inl err \<Rightarrow> Inl err
      | Inr fs \<Rightarrow>
          Inr \<lparr>TickerInterval = 15 * Second, PressureThreshold = pressureThreshold',
               proc = fs, isCurrentlyHigh = False\<rparr>)"

section \<open>The rules of the specification\<close>

text \<open>
  The definitions of this section follow the wording of the specification, one score
  delta per pass as a function of the pod alone. The lemmas \<open>scoreByAge_map\<close>,
  \<open>scoreByQOSClass_map\<close>, \<open>scoreByOwnerType_map\<close> and \<open>scoreByCriticality_map\<close>
  compare them with the loops above.
\<close>

definition add_score :: "int \<Rightarrow> PodCandidate \<Rightarrow> PodCandidate" where
  "add_score d c = c\<lparr>Score := Score c + d\<rparr>"

definition spec_qos_delta :: "Pod \<Rightarrow> int" where
  "spec_qos_delta p =
     (if QOSClass (Status p) = PodQOSBestEffort \<or> QOSClass (Status p) = PodQOSBurstable
      then 100 else 0)"

definition spec_age_delta :: "Time \<Rightarrow> Duration \<Rightarrow> Pod \<Rightarrow> int" where
  "spec_age_delta now minPodAge p =
     (case StartTime (Status p) of
        None \<Rightarrow> - 10000
      | Some start \<Rightarrow>
          if Sub now start < minPodAge then - 10000
          else \<lfloor>ln (1 + real_of_int (max 1 (Sub now start div Second)))\<rfloor>)"

definition spec_ref_delta :: "OwnerReference \<Rightarrow> int" where
  "spec_ref_delta r =
     (if Kind r = ''ReplicaSet'' then 100
      else if Kind r = ''StatefulSet'' \<or> Kind r = ''DaemonSet'' then - 10000
      else 0)"

definition spec_owner_delta :: "Pod \<Rightarrow> int" where
  "spec_owner_delta p =
     (if OwnerReferences p = [] then - 1000 else 0)
     + sum_list (map spec_ref_delta (OwnerReferences p))"

definition spec_criticality_delta :: "Pod \<Rightarrow> int" where
  "spec_criticality_delta p =
     (if Namespace p = ''kube-system'' then - 10000 else 0)
     + (if PriorityClassName (Spec p) = ''system-cluster-critical''
           \<or> PriorityClassName (Spec p) = ''system-node-critical'' then - 10000 else 0)
     + (if ''scheduler.alpha.kubernetes.io/critical-pod'' \<in> dom (Annotations p)
        then - 10000 else 0)"

definition spec_final_delta :: "Time \<Rightarrow> Duration \<Rightarrow> Pod \<Rightarrow> int" where
  "spec_final_delta now minPodAge p =
     spec_age_delta now minPodAge p + spec_qos_delta p + spec_owner_delta p
     + spec_criticality_delta p"

text \<open>
  The number of replica-set-style owner references of a pod, and the condition under
  which some pass applies a delta of \<open>-10000\<close> to it.
\<close>

definition replica_set_refs :: "Pod \<Rightarrow> nat" where
  "replica_set_refs p = length (filter (\<lambda>r. Kind r = ''ReplicaSet'') (OwnerReferences p))"

definition spec_vetoed :: "Time \<Rightarrow> Duration \<Rightarrow> Pod \<Rightarrow> bool" where
  "spec_vetoed now minPodAge p =
     ((case StartTime (Status p) of None \<Rightarrow> True | Some start \<Rightarrow> Sub now start < minPodAge)
      \<or> (\<exists>r \<in> set (OwnerReferences p). Kind r = ''StatefulSet'' \<or> Kind r = ''DaemonSet'')
      \<or> Namespace p = ''kube-system''
      \<or> PriorityClassName (Spec p) = ''system-cluster-critical''
      \<or> PriorityClassName (Spec p) = ''system-node-critical''
      \<or> ''scheduler.alpha.kubernetes.io/critical-pod'' \<in> dom (Annotations p))"

text \<open>
  Inserting the element right of a sorted prefix, the prefix given from right to left:
  what the inner loop of the insertion sort computes.
\<close>

fun insert_from_right :: "PodCandidate \<Rightarrow> PodCandidate list \<Rightarrow> PodCandidate list" where
  "insert_from_right x [] = [x]"
| "insert_from_right x (y # ys) =
     (if Score y < Score x then y # insert_from_right x ys else x # y # ys)"

section \<open>Example pods\<close>

text \<open>A pod in the default namespace, with no annotation and no priority class.\<close>

definition example_pod :: "string \<Rightarrow> OwnerReference list \<Rightarrow> Time option \<Rightarrow> Pod" where
  "example_pod qos owners start =
     \<lparr>Namespace = ''default'', Name = ''example'', OwnerReferences = owners,
      Annotations = Map.empty, Spec = \<lparr>PriorityClassName = ''''\<rparr>,
      Status = \<lparr>QOSClass = qos, StartTime = start\<rparr>\<rparr>"

text \<open>
  The scenario of the specification: \<open>A\<close> is best-effort, ten days old and owned by a
  replica set; \<open>B\<close> is the same, two seconds old; \<open>C\<close> is guaranteed, ten days old and
  owned by a daemon set. The minimal age is thirty seconds.
\<close>

definition scenario_now :: Time where
  "scenario_now = 1000000 * Second"

definition scenario_A :: Pod where
  "scenario_A = example_pod PodQOSBestEffort [\<lparr>Kind = ''ReplicaSet''\<rparr>]
                  (Some (scenario_now - 864000 * Second))"

definition scenario_B :: Pod where
  "scenario_B = example_pod PodQOSBestEffort [\<lparr>Kind = ''ReplicaSet''\<rparr>]
                  (Some (scenario_now - 2 * Second))"

definition scenario_C :: Pod where
  "scenario_C = example_pod PodQOSGuaranteed [\<lparr>Kind = ''DaemonSet''\<rparr>]
                  (Some (scenario_now - 864000 * Second))"

section \<open>The loops as maps\<close>

lemma fold_range_prefix:
  assumes body: "\<And>i t. i < length t \<Longrightarrow> body i t = t[i := f (t ! i)]"
  shows "n \<le> length s \<Longrightarrow> fold body [0..<n] s = map f (take n s) @ drop n s"
proof (induction n)
  case 0
  then show ?case by simp
next
  case (Suc n)
  then have n: "n < length s" by simp
  let ?t = "map f (take n s) @ drop n s"
  have len: "length ?t = length s" using n by simp
  have nth: "?t ! n = s ! n" using n by (simp add: nth_append)
  have "fold body [0..<Suc n] s = body n ?t" using Suc by simp
  also have "\<dots> = ?t[n := f (s ! n)]" using body [of n ?t] n len nth by simp
  also have "\<dots> = map f (take (Suc n) s) @ drop (Suc n) s"
    using n by (simp add: list_update_append take_Suc_conv_app_nth upd_conv_take_nth_drop
        Cons_nth_drop_Suc [symmetric] drop_Suc)
  finally show ?case .
qed

lemma for_range_map:
  assumes "\<And>i t. i < length t \<Longrightarrow> body i t = t[i := f (t ! i)]"
  shows "for_range body s = map f s"
  using fold_range_prefix [OF assms, of "length s" s] by (simp add: for_range_def)

lemma add_score_simps [simp]:
  "Pod (add_score d c) = Pod c" "Score (add_score d c) = Score c + d"
  by (simp_all add: add_score_def)

lemma add_score_0 [simp]: "add_score 0 c = c"
  by (simp add: add_score_def)

lemma add_score_add: "add_score d (add_score e c) = add_score (e + d) c"
  by (simp add: add_score_def)

lemma scoreByQOSClass_map:
  "scoreByQOSClass s = map (\<lambda>c. add_score (spec_qos_delta (Pod c)) c) s"
  unfolding scoreByQOSClass_def
  by (rule for_range_map)
     (simp add: scoreByQOSClass_body_def spec_qos_delta_def add_score_def)

lemma age_seconds_eq:
  "(if d sdiv Second < 1 then 1 else d sdiv Second) = max 1 (d div Second)"
proof (cases "0 \<le> d")
  case True
  then have "d sdiv Second = d div Second"
    by (simp add: signed_divide_int_def Second_def Nanosecond_def sgn_if)
  then show ?thesis by (simp add: max_def)
next
  case False
  then have "d sdiv Second \<le> 0" "d div Second < 0"
    by (simp_all add: signed_divide_int_def Second_def Nanosecond_def sgn_if
          pos_imp_zdiv_nonneg_iff neg_imp_zdiv_neg_iff)
  then show ?thesis by (simp add: max_def)
qed

lemma floor_log1p:
  assumes "1 \<le> a"
  shows "int_of_float64 (Floor (Log1p (of_int a))) = \<lfloor>ln (1 + real_of_int a)\<rfloor>"
proof -
  have "0 \<le> ln (1 + real_of_int a)" using assms by simp
  then have "0 \<le> \<lfloor>ln (1 + real_of_int a)\<rfloor>" by simp
  then show ?thesis by (simp add: int_of_float64_def Floor_def Log1p_def)
qed

lemma scoreByAge_map:
  "scoreByAge now minPodAge s = map (\<lambda>c. add_score (spec_age_delta now minPodAge (Pod c)) c) s"
  unfolding scoreByAge_def
proof (rule for_range_map)
  fix i and t :: PodCandidateSet
  assume "i < length t"
  show "scoreByAge_body now minPodAge i t
        = t[i := add_score (spec_age_delta now minPodAge (Pod (t ! i))) (t ! i)]"
  proof (cases "StartTime (Status (Pod (t ! i)))")
    case None
    then show ?thesis
      by (simp add: scoreByAge_body_def spec_age_delta_def add_score_def)
  next
    case (Some start)
    have "int_of_float64 (Floor (Log1p (of_int (max 1 (Sub now start div Second)))))
          = \<lfloor>ln (1 + real_of_int (max 1 (Sub now start div Second)))\<rfloor>"
      by (rule floor_log1p) simp
    with Some show ?thesis
      by (simp add: scoreByAge_body_def spec_age_delta_def add_score_def Let_def
            age_seconds_eq)
  qed
qed

lemma fold_scoreByOwnerType_ref:
  "i < length s \<Longrightarrow>
   fold (scoreByOwnerType_ref i) rs s
   = s[i := add_score (sum_list (map spec_ref_delta rs)) (s ! i)]"
proof (induction rs arbitrary: s)
  case Nil
  then show ?case by simp
next
  case (Cons r rs)
  have step: "scoreByOwnerType_ref i r s = s[i := add_score (spec_ref_delta r) (s ! i)]"
    by (simp add: scoreByOwnerType_ref_def spec_ref_delta_def add_score_def)
  show ?case using Cons by (simp add: step add_score_add)
qed

lemma scoreByOwnerType_map:
  "scoreByOwnerType s = map (\<lambda>c. add_score (spec_owner_delta (Pod c)) c) s"
  unfolding scoreByOwnerType_def
proof (rule for_range_map)
  fix i and t :: PodCandidateSet
  assume i: "i < length t"
  show "scoreByOwnerType_body i t = t[i := add_score (spec_owner_delta (Pod (t ! i))) (t ! i)]"
  proof (cases "OwnerReferences (Pod (t ! i)) = []")
    case True
    with i show ?thesis
      by (simp add: scoreByOwnerType_body_def spec_owner_delta_def add_score_def)
  next
    case False
    with i show ?thesis
      by (simp add: scoreByOwnerType_body_def spec_owner_delta_def fold_scoreByOwnerType_ref)
  qed
qed

lemma scoreByCriticality_map:
  "scoreByCriticality s = map (\<lambda>c. add_score (spec_criticality_delta (Pod c)) c) s"
  unfolding scoreByCriticality_def
proof (rule for_range_map)
  fix i and t :: PodCandidateSet
  assume i: "i < length t"
  then show "scoreByCriticality_body i t
        = t[i := add_score (spec_criticality_delta (Pod (t ! i))) (t ! i)]"
    by (simp add: scoreByCriticality_body_def spec_criticality_delta_def add_score_def
          Let_def dom_def)
qed

lemma score_all_map:
  "score_all now minPodAge s = map (\<lambda>c. add_score (spec_final_delta now minPodAge (Pod c)) c) s"
  by (simp add: score_all_def scoreByAge_map scoreByQOSClass_map scoreByOwnerType_map
        scoreByCriticality_map spec_final_delta_def add_score_add comp_def)

section \<open>The insertion sort\<close>

lemma Swap_adjacent:
  "Swap (xs @ y # x # rest) (Suc (length xs)) (length xs) = xs @ x # y # rest"
  by (simp add: Swap_def Let_def nth_append list_update_append)

lemma Reverse_Less_adjacent:
  "Reverse_Less (xs @ y # x # rest) (Suc (length xs)) (length xs) = (Score y < Score x)"
  by (simp add: Reverse_Less_def Less_def nth_append)

lemma insertionSort_inner_append:
  "insertionSort_inner (xs @ x # rest) (length xs)
   = rev (insert_from_right x (rev xs)) @ rest"
proof (induction xs arbitrary: rest rule: rev_induct)
  case Nil
  then show ?case by simp
next
  case (snoc y xs)
  have "insertionSort_inner ((xs @ [y]) @ x # rest) (length (xs @ [y]))
        = insertionSort_inner (xs @ y # x # rest) (Suc (length xs))" by simp
  also have "\<dots> = (if Score y < Score x
                    then insertionSort_inner (xs @ x # y # rest) (length xs)
                    else xs @ y # x # rest)"
    by (simp only: insertionSort_inner.simps Swap_adjacent Reverse_Less_adjacent)
  also have "\<dots> = rev (insert_from_right x (rev (xs @ [y]))) @ rest"
    by (simp add: snoc.IH)
  finally show ?case .
qed

lemma length_insert_from_right [simp]:
  "length (insert_from_right x ys) = Suc (length ys)"
  by (induction ys) auto

lemma length_fold_insert_from_right [simp]:
  "length (fold insert_from_right xs acc) = length xs + length acc"
  by (induction xs arbitrary: acc) auto

lemma insertionSort_prefix:
  "0 < n \<Longrightarrow> n \<le> length s \<Longrightarrow>
   fold (\<lambda>i s. insertionSort_inner s i) [1..<n] s
   = rev (fold insert_from_right (take n s) []) @ drop n s"
proof (induction n)
  case 0
  then show ?case by simp
next
  case (Suc n)
  show ?case
  proof (cases "n = 0")
    case True
    with Suc.prems show ?thesis
      by (cases s) simp_all
  next
    case False
    let ?A = "fold insert_from_right (take n s) []"
    from Suc.prems have n: "n < length s" by simp
    have lenA: "length (rev ?A) = n" using n by simp
    have "fold (\<lambda>i s. insertionSort_inner s i) [1..<Suc n] s
          = insertionSort_inner (rev ?A @ drop n s) n"
      using Suc.IH False n by simp
    also have "\<dots> = insertionSort_inner (rev ?A @ s ! n # drop (Suc n) s) (length (rev ?A))"
      using n lenA by (simp add: Cons_nth_drop_Suc)
    also have "\<dots> = rev (insert_from_right (s ! n) (rev (rev ?A))) @ drop (Suc n) s"
      by (rule insertionSort_inner_append)
    also have "\<dots> = rev (fold insert_from_right (take (Suc n) s) []) @ drop (Suc n) s"
      using n by (simp add: take_Suc_conv_app_nth)
    finally show ?thesis .
  qed
qed

lemma insertionSort_fold:
  "insertionSort s = rev (fold insert_from_right s [])"
proof (cases "s = []")
  case True
  then show ?thesis by (simp add: insertionSort_def Len_def)
next
  case False
  then show ?thesis
    using insertionSort_prefix [of "length s" s] by (simp add: insertionSort_def Len_def)
qed

lemma mset_insert_from_right [simp]:
  "mset (insert_from_right x ys) = add_mset x (mset ys)"
  by (induction ys) auto

lemma set_insert_from_right [simp]:
  "set (insert_from_right x ys) = insert x (set ys)"
  by (induction ys) auto

lemma mset_fold_insert_from_right:
  "mset (fold insert_from_right xs acc) = mset xs + mset acc"
  by (induction xs arbitrary: acc) auto

lemma sorted_insert_from_right:
  "sorted_wrt (\<lambda>a b. Score a \<le> Score b) ys \<Longrightarrow>
   sorted_wrt (\<lambda>a b. Score a \<le> Score b) (insert_from_right x ys)"
  by (induction ys) auto

lemma sorted_fold_insert_from_right:
  "sorted_wrt (\<lambda>a b. Score a \<le> Score b) acc \<Longrightarrow>
   sorted_wrt (\<lambda>a b. Score a \<le> Score b) (fold insert_from_right xs acc)"
  by (induction xs arbitrary: acc) (auto intro: sorted_insert_from_right)

lemma filter_insert_from_right:
  "filter (\<lambda>c. Score c = k) (insert_from_right x ys) = filter (\<lambda>c. Score c = k) (x # ys)"
  by (induction ys) auto

lemma filter_fold_insert_from_right:
  "filter (\<lambda>c. Score c = k) (fold insert_from_right xs acc)
   = rev (filter (\<lambda>c. Score c = k) xs) @ filter (\<lambda>c. Score c = k) acc"
  by (induction xs arbitrary: acc) (auto simp: filter_insert_from_right)

lemma mset_insertionSort: "mset (insertionSort s) = mset s"
  by (simp add: insertionSort_fold mset_fold_insert_from_right)

lemma sorted_insertionSort: "sorted_wrt (\<lambda>a b. Score b \<le> Score a) (insertionSort s)"
  using sorted_fold_insert_from_right [of "[]" s]
  by (simp add: insertionSort_fold sorted_wrt_rev)

lemma stable_insertionSort:
  "filter (\<lambda>c. Score c = k) (insertionSort s) = filter (\<lambda>c. Score c = k) s"
  by (simp add: insertionSort_fold filter_fold_insert_from_right rev_filter [symmetric])

lemma insertionSort_sort_key: "insertionSort s = sort_key (\<lambda>c. - Score c) s"
proof (rule sym, rule properties_for_sort_key)
  show "mset (insertionSort s) = mset s" by (rule mset_insertionSort)
  show "sorted (map (\<lambda>c. - Score c) (insertionSort s))"
    using sorted_insertionSort [of s] by (simp add: sorted_map)
  fix k assume "k \<in> set (insertionSort s)"
  have "filter (\<lambda>c. Score c = Score k) (insertionSort s) = filter (\<lambda>c. Score c = Score k) s"
    by (rule stable_insertionSort)
  then show "filter (\<lambda>x. - Score k = - Score x) (insertionSort s)
             = filter (\<lambda>x. - Score k = - Score x) s"
    by (simp add: eq_commute)
qed

lemma Stable_unique:
  assumes "mset ys = mset s"
    and "sorted_wrt (\<lambda>a b. \<not> Score a < Score b) ys"
    and "\<And>k. filter (\<lambda>c. Score c = k) ys = filter (\<lambda>c. Score c = k) s"
  shows "ys = Stable_Reverse s"
proof -
  have "sort_key (\<lambda>c. - Score c) s = ys"
  proof (rule properties_for_sort_key)
    show "mset ys = mset s" by fact
    show "sorted (map (\<lambda>c. - Score c) ys)"
      using assms(2) by (simp add: sorted_map not_less)
    fix k :: PodCandidate
    show "filter (\<lambda>x. - Score k = - Score x) ys = filter (\<lambda>x. - Score k = - Score x) s"
      using assms(3) [of "Score k"] by (simp add: eq_commute)
  qed
  then show ?thesis by (simp add: Stable_Reverse_def insertionSort_sort_key)
qed

section \<open>Values of the logarithm\<close>

lemma exp_1_lower: "2716 / 1000 \<le> exp (1::real)"
proof -
  have "1 + (1/16) + (1/16)\<^sup>2 / 2 \<le> exp (1/16 :: real)"
    by (rule exp_lower_Taylor_quadratic) simp
  then have "(1 + (1/16) + (1/16)\<^sup>2 / 2) ^ 16 \<le> exp (1/16 :: real) ^ 16"
    by (intro power_mono) simp_all
  also have "exp (1/16 :: real) ^ 16 = exp 1"
    using exp_of_nat_mult [of 16 "1/16 :: real"] by simp
  finally have "(1 + (1/16) + (1/16)\<^sup>2 / 2) ^ 16 \<le> exp (1::real)" .
  moreover have "(2716 / 1000 :: real) \<le> (1 + (1/16) + (1/16)\<^sup>2 / 2) ^ 16"
    by (simp add: power2_eq_square power_divide)
  ultimately show ?thesis by linarith
qed

lemma exp_1_upper: "exp (1::real) \<le> 274 / 100"
proof -
  have "1 + (- (1/64)) \<le> exp (- (1/64) :: real)"
    by (rule exp_ge_add_one_self)
  then have "63 / 64 \<le> exp (- (1/64) :: real)" by simp
  then have "(63 / 64) ^ 64 \<le> exp (- (1/64) :: real) ^ 64"
    by (intro power_mono) simp_all
  also have "exp (- (1/64) :: real) ^ 64 = exp (- 1)"
    using exp_of_nat_mult [of 64 "- (1/64) :: real"] by simp
  finally have "(63 / 64) ^ 64 \<le> exp (- 1 :: real)" .
  moreover have "(100 / 274 :: real) \<le> (63 / 64) ^ 64"
    by (simp add: power_divide)
  ultimately have "100 / 274 \<le> exp (- 1 :: real)" by linarith
  then have "100 / 274 \<le> 1 / exp (1 :: real)" by (simp add: exp_minus inverse_eq_divide)
  then have "100 * exp (1::real) \<le> 274"
    by (simp add: field_simps)
  then show ?thesis by simp
qed

lemma floor_ln_eqI:
  fixes x :: real
  assumes "(274 / 100) ^ k \<le> x" and "x < (2716 / 1000) ^ Suc k"
  shows "\<lfloor>ln x\<rfloor> = int k"
proof -
  have pos: "0 < x"
    using assms(1) by (rule less_le_trans [rotated]) simp
  have "exp (real k) = exp 1 ^ k"
    using exp_of_nat_mult [of k "1::real"] by simp
  also have "\<dots> \<le> (274 / 100) ^ k"
    by (intro power_mono exp_1_upper) simp
  finally have "exp (real k) \<le> x" using assms(1) by linarith
  then have lo: "real k \<le> ln x"
    using pos by (simp add: ln_ge_iff)
  have "x < (2716 / 1000) ^ Suc k" by fact
  also have "\<dots> \<le> exp 1 ^ Suc k"
    by (intro power_mono exp_1_lower) simp
  also have "\<dots> = exp (real (Suc k))"
    using exp_of_nat_mult [of "Suc k" "1::real"] by simp
  finally have "x < exp (real (Suc k))" .
  then have "ln x < ln (exp (real (Suc k)))"
    using pos by (subst ln_less_cancel_iff) simp_all
  then have hi: "ln x < real k + 1" by simp
  show ?thesis
    using lo hi by (intro floor_unique) simp_all
qed

lemma floor_ln_values:
  "\<lfloor>ln (2::real)\<rfloor> = 0"
  "\<lfloor>ln (61::real)\<rfloor> = 4"
  "\<lfloor>ln (3601::real)\<rfloor> = 8"
  "\<lfloor>ln (86401::real)\<rfloor> = 11"
  "\<lfloor>ln (31536001::real)\<rfloor> = 17"
  "\<lfloor>ln (9223372037::real)\<rfloor> = 22"
  using floor_ln_eqI [of 0 2] floor_ln_eqI [of 4 61] floor_ln_eqI [of 8 3601]
    floor_ln_eqI [of 11 86401] floor_ln_eqI [of 17 31536001] floor_ln_eqI [of 22 9223372037]
  by (simp_all add: power_divide)

section \<open>Bounds of the deltas\<close>

lemma example_pod_simps [simp]:
  "Namespace (example_pod q rs t) = ''default''"
  "OwnerReferences (example_pod q rs t) = rs"
  "Annotations (example_pod q rs t) = Map.empty"
  "PriorityClassName (Spec (example_pod q rs t)) = ''''"
  "QOSClass (Status (example_pod q rs t)) = q"
  "StartTime (Status (example_pod q rs t)) = t"
  by (simp_all add: example_pod_def)

lemma Sub_le_maxDuration: "Sub t u \<le> maxDuration"
  by (simp add: Sub_def maxDuration_def minDuration_def)

lemma Sub_self_minus [simp]: "0 \<le> d \<Longrightarrow> d \<le> maxDuration \<Longrightarrow> Sub now (now - d) = d"
  by (simp add: Sub_def maxDuration_def minDuration_def)

lemma age_seconds_bounds:
  "1 \<le> max 1 (Sub t u div Second)" "max 1 (Sub t u div Second) \<le> 9223372036"
proof -
  show "1 \<le> max 1 (Sub t u div Second)" by simp
  have "Sub t u div Second \<le> maxDuration div Second"
    by (rule zdiv_mono1 [OF Sub_le_maxDuration]) (simp add: Second_def Nanosecond_def)
  also have "\<dots> = 9223372036"
    by (simp add: maxDuration_def Second_def Nanosecond_def)
  finally show "max 1 (Sub t u div Second) \<le> 9223372036" by simp
qed

lemma floor_ln_mono:
  fixes a b :: int
  assumes "1 \<le> a" "a \<le> b"
  shows "\<lfloor>ln (1 + real_of_int a)\<rfloor> \<le> \<lfloor>ln (1 + real_of_int b)\<rfloor>"
proof (rule floor_mono)
  have "0 < 1 + real_of_int a" "1 + real_of_int a \<le> 1 + real_of_int b"
    using assms by simp_all
  then show "ln (1 + real_of_int a) \<le> ln (1 + real_of_int b)"
    by (subst ln_le_cancel_iff) simp_all
qed

lemma age_bonus_bounds:
  "0 \<le> \<lfloor>ln (1 + real_of_int (max 1 (Sub t u div Second)))\<rfloor>"
  "\<lfloor>ln (1 + real_of_int (max 1 (Sub t u div Second)))\<rfloor> \<le> 22"
proof -
  let ?a = "max 1 (Sub t u div Second)"
  have "\<lfloor>ln (1 + real_of_int 1)\<rfloor> \<le> \<lfloor>ln (1 + real_of_int ?a)\<rfloor>"
    by (rule floor_ln_mono) (simp_all add: age_seconds_bounds)
  then show "0 \<le> \<lfloor>ln (1 + real_of_int ?a)\<rfloor>"
    by (simp add: floor_ln_values)
  have "\<lfloor>ln (1 + real_of_int ?a)\<rfloor> \<le> \<lfloor>ln (1 + real_of_int 9223372036)\<rfloor>"
    by (rule floor_ln_mono) (simp_all only: age_seconds_bounds)
  then show "\<lfloor>ln (1 + real_of_int ?a)\<rfloor> \<le> 22"
    by (simp add: floor_ln_values)
qed

lemma spec_age_delta_bounds:
  "- 10000 \<le> spec_age_delta now minPodAge p" "spec_age_delta now minPodAge p \<le> 22"
proof -
  have "- 10000 \<le> spec_age_delta now minPodAge p \<and> spec_age_delta now minPodAge p \<le> 22"
  proof (cases "StartTime (Status p)")
    case None
    then show ?thesis by (simp add: spec_age_delta_def)
  next
    case (Some start)
    define b where "b = \<lfloor>ln (1 + real_of_int (max 1 (Sub now start div Second)))\<rfloor>"
    have b: "0 \<le> b" "b \<le> 22"
      unfolding b_def by (rule age_bonus_bounds)+
    have "spec_age_delta now minPodAge p = (if Sub now start < minPodAge then - 10000 else b)"
      using Some by (simp add: spec_age_delta_def b_def)
    then show ?thesis using b by simp
  qed
  then show "- 10000 \<le> spec_age_delta now minPodAge p" "spec_age_delta now minPodAge p \<le> 22"
    by simp_all
qed

lemma spec_age_delta_veto:
  "(case StartTime (Status p) of None \<Rightarrow> True | Some start \<Rightarrow> Sub now start < minPodAge)
   \<Longrightarrow> spec_age_delta now minPodAge p = - 10000"
  by (simp add: spec_age_delta_def split: option.splits)

lemma spec_age_delta_eligible:
  "StartTime (Status p) = Some start \<Longrightarrow> minPodAge \<le> Sub now start
   \<Longrightarrow> 0 \<le> spec_age_delta now minPodAge p"
  using age_bonus_bounds(1) by (simp add: spec_age_delta_def)

lemma spec_qos_delta_bounds: "0 \<le> spec_qos_delta p" "spec_qos_delta p \<le> 100"
  by (simp_all add: spec_qos_delta_def)

lemma sum_ref_delta_upper:
  "sum_list (map spec_ref_delta rs) \<le> 100 * int (length (filter (\<lambda>r. Kind r = ''ReplicaSet'') rs))"
  by (induction rs) (auto simp: spec_ref_delta_def)

lemma sum_ref_delta_lower:
  "- 10000 * int (length rs) \<le> sum_list (map spec_ref_delta rs)"
  by (induction rs) (auto simp: spec_ref_delta_def)

lemma sum_ref_delta_veto:
  "\<exists>r \<in> set rs. Kind r = ''StatefulSet'' \<or> Kind r = ''DaemonSet'' \<Longrightarrow>
   sum_list (map spec_ref_delta rs)
   \<le> 100 * int (length (filter (\<lambda>r. Kind r = ''ReplicaSet'') rs)) - 10000"
proof (induction rs)
  case Nil
  then show ?case by simp
next
  case (Cons r rs)
  show ?case
  proof (cases "Kind r = ''StatefulSet'' \<or> Kind r = ''DaemonSet''")
    case True
    then have "spec_ref_delta r = - 10000" "Kind r \<noteq> ''ReplicaSet''"
      by (auto simp: spec_ref_delta_def)
    then show ?thesis
      using sum_ref_delta_upper [of rs] by simp
  next
    case False
    with Cons.prems have "\<exists>r \<in> set rs. Kind r = ''StatefulSet'' \<or> Kind r = ''DaemonSet''"
      by auto
    from Cons.IH [OF this] have
      "sum_list (map spec_ref_delta rs)
       \<le> 100 * int (length (filter (\<lambda>r. Kind r = ''ReplicaSet'') rs)) - 10000" .
    moreover have "spec_ref_delta r = (if Kind r = ''ReplicaSet'' then 100 else 0)"
      using False by (simp add: spec_ref_delta_def)
    ultimately show ?thesis by simp
  qed
qed

lemma sum_ref_delta_unrecognized:
  "\<forall>r \<in> set rs. Kind r \<noteq> ''ReplicaSet'' \<and> Kind r \<noteq> ''StatefulSet'' \<and> Kind r \<noteq> ''DaemonSet''
   \<Longrightarrow> sum_list (map spec_ref_delta rs) = 0"
  by (induction rs) (auto simp: spec_ref_delta_def)

lemma spec_owner_delta_upper: "spec_owner_delta p \<le> 100 * int (replica_set_refs p)"
  using sum_ref_delta_upper [of "OwnerReferences p"]
  by (simp add: spec_owner_delta_def replica_set_refs_def)

lemma spec_owner_delta_lower:
  "- 1000 - 10000 * int (length (OwnerReferences p)) \<le> spec_owner_delta p"
  using sum_ref_delta_lower [of "OwnerReferences p"]
  by (simp add: spec_owner_delta_def)

lemma spec_owner_delta_veto:
  "\<exists>r \<in> set (OwnerReferences p). Kind r = ''StatefulSet'' \<or> Kind r = ''DaemonSet'' \<Longrightarrow>
   spec_owner_delta p \<le> 100 * int (replica_set_refs p) - 10000"
  using sum_ref_delta_veto [of "OwnerReferences p"]
  by (auto simp add: spec_owner_delta_def replica_set_refs_def)

lemma spec_criticality_delta_bounds:
  "- 30000 \<le> spec_criticality_delta p" "spec_criticality_delta p \<le> 0"
  by (simp_all add: spec_criticality_delta_def)

lemma spec_criticality_delta_veto:
  "Namespace p = ''kube-system''
   \<or> PriorityClassName (Spec p) = ''system-cluster-critical''
   \<or> PriorityClassName (Spec p) = ''system-node-critical''
   \<or> ''scheduler.alpha.kubernetes.io/critical-pod'' \<in> dom (Annotations p)
   \<Longrightarrow> spec_criticality_delta p \<le> - 10000"
  by (auto simp add: spec_criticality_delta_def)

lemma final_score_bounds:
  "- 41000 - 10000 * int (length (OwnerReferences p)) \<le> spec_final_delta now minPodAge p"
  "spec_final_delta now minPodAge p \<le> 122 + 100 * int (length (OwnerReferences p))"
proof -
  have "int (replica_set_refs p) \<le> int (length (OwnerReferences p))"
    by (simp add: replica_set_refs_def)
  then show "- 41000 - 10000 * int (length (OwnerReferences p)) \<le> spec_final_delta now minPodAge p"
    "spec_final_delta now minPodAge p \<le> 122 + 100 * int (length (OwnerReferences p))"
    using spec_age_delta_bounds [of now minPodAge p] spec_qos_delta_bounds [of p]
      spec_owner_delta_upper [of p] spec_owner_delta_lower [of p]
      spec_criticality_delta_bounds [of p]
    by (simp_all add: spec_final_delta_def)
qed

lemma spec_vetoed_final_delta:
  assumes "spec_vetoed now minPodAge p"
  shows "spec_final_delta now minPodAge p \<le> 100 * int (replica_set_refs p) - 9878"
proof -
  consider
    (age) "case StartTime (Status p) of None \<Rightarrow> True | Some start \<Rightarrow> Sub now start < minPodAge"
  | (owner) "\<exists>r \<in> set (OwnerReferences p). Kind r = ''StatefulSet'' \<or> Kind r = ''DaemonSet''"
  | (crit) "Namespace p = ''kube-system''
       \<or> PriorityClassName (Spec p) = ''system-cluster-critical''
       \<or> PriorityClassName (Spec p) = ''system-node-critical''
       \<or> ''scheduler.alpha.kubernetes.io/critical-pod'' \<in> dom (Annotations p)"
    using assms unfolding spec_vetoed_def by blast
  then show ?thesis
  proof cases
    case age
    from spec_age_delta_veto [OF this] show ?thesis
      using spec_qos_delta_bounds [of p] spec_owner_delta_upper [of p]
        spec_criticality_delta_bounds [of p]
      by (simp add: spec_final_delta_def)
  next
    case owner
    from spec_owner_delta_veto [OF this] show ?thesis
      using spec_age_delta_bounds [of now minPodAge p] spec_qos_delta_bounds [of p]
        spec_criticality_delta_bounds [of p]
      by (simp add: spec_final_delta_def)
  next
    case crit
    from spec_criticality_delta_veto [OF this] show ?thesis
      using spec_age_delta_bounds [of now minPodAge p] spec_qos_delta_bounds [of p]
        spec_owner_delta_upper [of p]
      by (simp add: spec_final_delta_def)
  qed
qed

section \<open>The scan\<close>

lemma first_non_negative_find:
  "first_non_negative cs = map_option Pod (find (\<lambda>c. 0 \<le> Score c) cs)"
  by (induction cs) auto

lemma first_non_negative_None:
  "first_non_negative cs = None \<longleftrightarrow> (\<forall>c \<in> set cs. Score c < 0)"
  by (induction cs) auto

lemma first_non_negative_Some:
  "first_non_negative cs = Some p \<Longrightarrow> \<exists>c \<in> set cs. Pod c = p \<and> 0 \<le> Score c"
  by (induction cs) (auto split: if_splits)

lemma first_non_negative_sorted:
  "sorted_wrt (\<lambda>a b. Score b \<le> Score a) cs \<Longrightarrow> first_non_negative cs = Some p \<Longrightarrow>
   cs \<noteq> [] \<and> p = Pod (hd cs) \<and> 0 \<le> Score (hd cs) \<and> (\<forall>c \<in> set cs. Score c \<le> Score (hd cs))"
proof (cases cs)
  case Nil
  assume "first_non_negative cs = Some p"
  with Nil show ?thesis by simp
next
  case (Cons c cs')
  assume sorted: "sorted_wrt (\<lambda>a b. Score b \<le> Score a) cs"
    and sel: "first_non_negative cs = Some p"
  have neg: "\<forall>d \<in> set cs'. Score d \<le> Score c" using sorted Cons by simp
  have "0 \<le> Score c"
  proof (rule ccontr)
    assume "\<not> 0 \<le> Score c"
    then have "\<forall>d \<in> set cs. Score d < 0" using neg Cons by auto
    then have "first_non_negative cs = None" by (simp add: first_non_negative_None)
    with sel show False by simp
  qed
  then show ?thesis using sel Cons neg by auto
qed

lemma set_ranked: "set (ranked now minPodAge s) = set (score_all now minPodAge s)"
  using mset_insertionSort [of "score_all now minPodAge s"]
  by (metis ranked_def Stable_Reverse_def set_mset_mset)

section \<open>The claims\<close>

subsection \<open>The age pass\<close>

text \<open>
  Claim C4. For every candidate, the age pass adds exactly one delta to the score and
  changes nothing else: \<open>-10000\<close> if the pod has no recorded start time or its age
  (\<^verbatim>\<open>now.Sub(start)\<close>) is strictly below \<open>minPodAge\<close>; otherwise the floor of
  \<open>ln (1 + age)\<close>, where \<open>age\<close> is the age in whole seconds, raised to \<open>1\<close> when it
  is smaller. The delta is \<open>spec_age_delta\<close>, written after the specification; the pass
  is the loop of the source, with its truncating division.
\<close>

theorem scoreByAge_adds_one_delta:
  "scoreByAge now minPodAge s
   = map (\<lambda>c. c\<lparr>Score := Score c + spec_age_delta now minPodAge (Pod c)\<rparr>) s"
  using scoreByAge_map [of now minPodAge s] by (simp add: add_score_def)

subsection \<open>Stability of the ranking\<close>

text \<open>
  Claim C6. The sort of \<^verbatim>\<open>SelectPodForEviction\<close> is stable: the scored candidates stand
  in the order of the input list (the passes keep every candidate in its place), and for
  every score \<open>k\<close> the candidates whose final score is \<open>k\<close> appear in the ranked list in
  the same order as in the scored list.
\<close>

theorem ranked_stable:
  "ranked now minPodAge s = Stable_Reverse (score_all now minPodAge s)
   \<and> map Pod (score_all now minPodAge s) = map Pod s
   \<and> filter (\<lambda>c. Score c = k) (ranked now minPodAge s)
     = filter (\<lambda>c. Score c = k) (score_all now minPodAge s)"
  by (simp add: ranked_def Stable_Reverse_def stable_insertionSort score_all_map comp_def)

subsection \<open>Construction of the watcher\<close>

text \<open>
  Claim C8. \<^verbatim>\<open>NewWatcher\<close> returns the error of the proc file system when that is
  unavailable, whatever the threshold. Otherwise it returns a watcher whose ticker
  interval is 15 seconds and whose threshold is the caller's, or 25 when the caller
  passed 0.
\<close>

theorem NewWatcher_result:
  "NewWatcher pressureThreshold (Inl err) = Inl err
   \<and> NewWatcher pressureThreshold (Inr fs)
     = Inr \<lparr>TickerInterval = 15 * Second,
            PressureThreshold = (if pressureThreshold = 0 then 25 else pressureThreshold),
            proc = fs, isCurrentlyHigh = False\<rparr>
   \<and> (\<exists>w. NewWatcher 0 (Inr fs) = Inr w \<and> TickerInterval w = 15 * Second
          \<and> PressureThreshold w = 25)"
  by (simp add: NewWatcher_def)

subsection \<open>What a selection leaves unchanged\<close>

text \<open>
  Claim C10. Each of the four passes leaves every candidate at its index with the same
  pod: only scores change. The ranked set that \<^verbatim>\<open>SelectPodForEviction\<close> leaves behind
  holds the same pods as the input, reordered, and a selected pod is one of them.
\<close>

theorem scoring_and_selection_frame:
  "map Pod (scoreByAge now minPodAge s) = map Pod s
   \<and> map Pod (scoreByQOSClass s) = map Pod s
   \<and> map Pod (scoreByOwnerType s) = map Pod s
   \<and> map Pod (scoreByCriticality s) = map Pod s
   \<and> mset (map Pod (ranked now minPodAge s)) = mset (map Pod s)
   \<and> set_option (SelectPodForEviction now minPodAge s) \<subseteq> set (map Pod s)"
proof -
  have "map Pod (score_all now minPodAge s) = map Pod s"
    by (simp add: score_all_map comp_def)
  moreover have "mset (map Pod (ranked now minPodAge s))
                 = mset (map Pod (score_all now minPodAge s))"
    by (simp add: ranked_def Stable_Reverse_def mset_insertionSort)
  ultimately have perm: "mset (map Pod (ranked now minPodAge s)) = mset (map Pod s)"
    by simp
  then have "set (map Pod (ranked now minPodAge s)) = set (map Pod s)"
    by (rule mset_eq_setD)
  moreover have "set_option (first_non_negative cs) \<subseteq> set (map Pod cs)" for cs
    using first_non_negative_Some [of cs] by (cases "first_non_negative cs") auto
  ultimately have "set_option (SelectPodForEviction now minPodAge s) \<subseteq> set (map Pod s)"
    unfolding SelectPodForEviction_def by blast
  with perm show ?thesis
    by (simp add: scoreByAge_map scoreByQOSClass_map scoreByOwnerType_map
          scoreByCriticality_map comp_def)
qed

subsection \<open>The scale of the age bonus\<close>

text \<open>
  Claim C3. The specification and the comment in \<^verbatim>\<open>scoreByAge\<close> give the age delta as
  about 20 at one second, 24 at one minute, 28 at one hour, 32 at one day and 39 at one
  year. The pass divides the age by \<^verbatim>\<open>time.Second\<close> before taking the logarithm, and
  adds 0, 4, 8, 11 and 17 at those ages (with \<open>minPodAge = 0\<close>); to no candidate of any
  set does it add more than 22.
\<close>

theorem scoreByAge_table:
  "map Score
     (scoreByAge now 0
        (PodCandidateSetFromPodList
           \<lparr>Items = map (\<lambda>age. example_pod PodQOSGuaranteed [] (Some (now - age * Second)))
                        [1, 60, 3600, 86400, 31536000]\<rparr>))
   = [0, 4, 8, 11, 17]
   \<and> list_all2 (\<lambda>c' c. Score c' \<le> Score c + 22) (scoreByAge now minPodAge s) s"
proof
  show "map Score
     (scoreByAge now 0
        (PodCandidateSetFromPodList
           \<lparr>Items = map (\<lambda>age. example_pod PodQOSGuaranteed [] (Some (now - age * Second)))
                        [1, 60, 3600, 86400, 31536000]\<rparr>))
   = [0, 4, 8, 11, 17]"
    by (simp add: scoreByAge_map PodCandidateSetFromPodList_def spec_age_delta_def Sub_def
          Second_def Nanosecond_def maxDuration_def minDuration_def floor_ln_values)
  show "list_all2 (\<lambda>c' c. Score c' \<le> Score c + 22) (scoreByAge now minPodAge s) s"
    by (simp add: scoreByAge_map list_all2_map1 list_all2_same spec_age_delta_bounds)
qed

subsection \<open>Monotonicity of the age bonus\<close>

text \<open>
  Claim C7. Of two candidates of a set whose pods both have a start time and an age of at
  least \<open>minPodAge\<close>, the older receives an age delta at least as large as the younger.
\<close>

theorem scoreByAge_monotone:
  assumes "i < length s" and "j < length s"
    and "StartTime (Status (Pod (s ! i))) = Some ti"
    and "StartTime (Status (Pod (s ! j))) = Some tj"
    and "minPodAge \<le> Sub now tj" and "Sub now tj \<le> Sub now ti"
  shows "Score (scoreByAge now minPodAge s ! j) - Score (s ! j)
         \<le> Score (scoreByAge now minPodAge s ! i) - Score (s ! i)"
proof -
  have "Sub now tj div Second \<le> Sub now ti div Second"
    by (rule zdiv_mono1 [OF assms(6)]) (simp add: Second_def Nanosecond_def)
  then have "max 1 (Sub now tj div Second) \<le> max 1 (Sub now ti div Second)"
    by simp
  then have "\<lfloor>ln (1 + real_of_int (max 1 (Sub now tj div Second)))\<rfloor>
             \<le> \<lfloor>ln (1 + real_of_int (max 1 (Sub now ti div Second)))\<rfloor>"
    by (intro floor_ln_mono) simp_all
  moreover have "spec_age_delta now minPodAge (Pod (s ! j))
                 = \<lfloor>ln (1 + real_of_int (max 1 (Sub now tj div Second)))\<rfloor>"
    using assms(4,5) by (simp add: spec_age_delta_def)
  moreover have "spec_age_delta now minPodAge (Pod (s ! i))
                 = \<lfloor>ln (1 + real_of_int (max 1 (Sub now ti div Second)))\<rfloor>"
    using assms(3,5,6) by (simp add: spec_age_delta_def)
  ultimately have "spec_age_delta now minPodAge (Pod (s ! j))
                   \<le> spec_age_delta now minPodAge (Pod (s ! i))"
    by simp
  then show ?thesis
    using assms(1,2) by (simp add: scoreByAge_map)
qed

theorem scoreByAge_monotone_witness:
  "5 * Second \<le> Sub (1000 * Second) (990 * Second)
   \<and> Sub (1000 * Second) (990 * Second) \<le> Sub (1000 * Second) (900 * Second)
   \<and> Score (scoreByAge (1000 * Second) (5 * Second)
            [\<lparr>Pod = example_pod PodQOSBurstable [] (Some (900 * Second)), Score = 0\<rparr>,
             \<lparr>Pod = example_pod PodQOSBurstable [] (Some (990 * Second)), Score = 0\<rparr>] ! 1) - 0
     \<le> Score (scoreByAge (1000 * Second) (5 * Second)
            [\<lparr>Pod = example_pod PodQOSBurstable [] (Some (900 * Second)), Score = 0\<rparr>,
             \<lparr>Pod = example_pod PodQOSBurstable [] (Some (990 * Second)), Score = 0\<rparr>] ! 0) - 0"
  using scoreByAge_monotone [of 0
      "[\<lparr>Pod = example_pod PodQOSBurstable [] (Some (900 * Second)), Score = 0\<rparr>,
        \<lparr>Pod = example_pod PodQOSBurstable [] (Some (990 * Second)), Score = 0\<rparr>]"
      1 "900 * Second" "990 * Second" "5 * Second" "1000 * Second"]
  by (simp add: Sub_def Second_def Nanosecond_def maxDuration_def minDuration_def)

subsection \<open>Owner references of other kinds\<close>

text \<open>
  Claim C9. An owner reference whose kind is none of ReplicaSet, StatefulSet and DaemonSet
  (a Job, say) contributes nothing: the body of the inner loop of \<^verbatim>\<open>scoreByOwnerType\<close>
  leaves the set as it is for that reference, and a candidate all of whose owner
  references are of such kinds (and that has at least one) leaves the pass unchanged.
  Such a pod is selected when nothing else counts against it: alone in the set, old
  enough and not critical, it is the result of \<^verbatim>\<open>SelectPodForEviction\<close>.
\<close>

theorem unrecognized_owner_kind_adds_nothing:
  "(Kind r \<noteq> ''ReplicaSet'' \<and> Kind r \<noteq> ''StatefulSet'' \<and> Kind r \<noteq> ''DaemonSet''
      \<longrightarrow> scoreByOwnerType_ref i r s = s)
   \<and> (i < length s \<and> OwnerReferences (Pod (s ! i)) \<noteq> []
       \<and> (\<forall>r \<in> set (OwnerReferences (Pod (s ! i))).
             Kind r \<noteq> ''ReplicaSet'' \<and> Kind r \<noteq> ''StatefulSet'' \<and> Kind r \<noteq> ''DaemonSet'')
      \<longrightarrow> scoreByOwnerType s ! i = s ! i)
   \<and> (OwnerReferences p \<noteq> []
       \<and> (\<forall>r \<in> set (OwnerReferences p).
             Kind r \<noteq> ''ReplicaSet'' \<and> Kind r \<noteq> ''StatefulSet'' \<and> Kind r \<noteq> ''DaemonSet'')
       \<and> StartTime (Status p) = Some start \<and> minPodAge \<le> Sub now start
       \<and> Namespace p \<noteq> ''kube-system''
       \<and> PriorityClassName (Spec p) \<noteq> ''system-cluster-critical''
       \<and> PriorityClassName (Spec p) \<noteq> ''system-node-critical''
       \<and> ''scheduler.alpha.kubernetes.io/critical-pod'' \<notin> dom (Annotations p)
      \<longrightarrow> SelectPodForEviction now minPodAge (PodCandidateSetFromPodList \<lparr>Items = [p]\<rparr>)
          = Some p)"
proof (intro conjI impI)
  assume "Kind r \<noteq> ''ReplicaSet'' \<and> Kind r \<noteq> ''StatefulSet'' \<and> Kind r \<noteq> ''DaemonSet''"
  then show "scoreByOwnerType_ref i r s = s"
    by (simp add: scoreByOwnerType_ref_def)
next
  assume a: "i < length s \<and> OwnerReferences (Pod (s ! i)) \<noteq> []
       \<and> (\<forall>r \<in> set (OwnerReferences (Pod (s ! i))).
             Kind r \<noteq> ''ReplicaSet'' \<and> Kind r \<noteq> ''StatefulSet'' \<and> Kind r \<noteq> ''DaemonSet'')"
  then have "spec_owner_delta (Pod (s ! i)) = 0"
    using sum_ref_delta_unrecognized [of "OwnerReferences (Pod (s ! i))"]
    by (simp add: spec_owner_delta_def)
  then show "scoreByOwnerType s ! i = s ! i"
    using a by (simp add: scoreByOwnerType_map)
next
  assume a: "OwnerReferences p \<noteq> []
       \<and> (\<forall>r \<in> set (OwnerReferences p).
             Kind r \<noteq> ''ReplicaSet'' \<and> Kind r \<noteq> ''StatefulSet'' \<and> Kind r \<noteq> ''DaemonSet'')
       \<and> StartTime (Status p) = Some start \<and> minPodAge \<le> Sub now start
       \<and> Namespace p \<noteq> ''kube-system''
       \<and> PriorityClassName (Spec p) \<noteq> ''system-cluster-critical''
       \<and> PriorityClassName (Spec p) \<noteq> ''system-node-critical''
       \<and> ''scheduler.alpha.kubernetes.io/critical-pod'' \<notin> dom (Annotations p)"
  have owner: "spec_owner_delta p = 0"
    using a sum_ref_delta_unrecognized [of "OwnerReferences p"]
    by (simp add: spec_owner_delta_def)
  have crit: "spec_criticality_delta p = 0"
    using a by (simp add: spec_criticality_delta_def)
  have age: "0 \<le> spec_age_delta now minPodAge p"
    using a by (intro spec_age_delta_eligible [of p start]) simp_all
  have "0 \<le> spec_final_delta now minPodAge p"
    using owner crit age spec_qos_delta_bounds(1) [of p] by (simp add: spec_final_delta_def)
  then show "SelectPodForEviction now minPodAge (PodCandidateSetFromPodList \<lparr>Items = [p]\<rparr>)
             = Some p"
    by (simp add: SelectPodForEviction_def ranked_def Stable_Reverse_def insertionSort_fold
          score_all_map PodCandidateSetFromPodList_def)
qed

theorem unrecognized_owner_kind_witness:
  "scoreByOwnerType_ref 0 \<lparr>Kind = ''Job''\<rparr>
     [\<lparr>Pod = example_pod PodQOSGuaranteed [\<lparr>Kind = ''Job''\<rparr>] (Some 0), Score = 7\<rparr>]
   = [\<lparr>Pod = example_pod PodQOSGuaranteed [\<lparr>Kind = ''Job''\<rparr>] (Some 0), Score = 7\<rparr>]
   \<and> scoreByOwnerType
       [\<lparr>Pod = example_pod PodQOSGuaranteed [\<lparr>Kind = ''Job''\<rparr>] (Some 0), Score = 7\<rparr>] ! 0
     = \<lparr>Pod = example_pod PodQOSGuaranteed [\<lparr>Kind = ''Job''\<rparr>] (Some 0), Score = 7\<rparr>
   \<and> SelectPodForEviction (3600 * Second) (60 * Second)
       (PodCandidateSetFromPodList
          \<lparr>Items = [example_pod PodQOSGuaranteed [\<lparr>Kind = ''Job''\<rparr>] (Some 0)]\<rparr>)
     = Some (example_pod PodQOSGuaranteed [\<lparr>Kind = ''Job''\<rparr>] (Some 0))"
  using unrecognized_owner_kind_adds_nothing [of "\<lparr>Kind = ''Job''\<rparr>" 0
      "[\<lparr>Pod = example_pod PodQOSGuaranteed [\<lparr>Kind = ''Job''\<rparr>] (Some 0), Score = 7\<rparr>]"
      "example_pod PodQOSGuaranteed [\<lparr>Kind = ''Job''\<rparr>] (Some 0)"
      0 "60 * Second" "3600 * Second"]
  by (simp add: Sub_def Second_def Nanosecond_def maxDuration_def minDuration_def)

subsection \<open>The owner-type pass\<close>

text \<open>
  Claim C5, as stated, fails: with a hundred replica-set references next to one
  stateful-set reference the pass adds \<open>100 * 100 - 10000 = 0\<close>, which is not negative.
\<close>

theorem scoreByOwnerType_counterexample:
  "\<lparr>Kind = ''StatefulSet''\<rparr>
     \<in> set (replicate 100 \<lparr>Kind = ''ReplicaSet''\<rparr> @ [\<lparr>Kind = ''StatefulSet''\<rparr>])
   \<and> map Score
       (scoreByOwnerType
          [\<lparr>Pod = example_pod PodQOSGuaranteed
                    (replicate 100 \<lparr>Kind = ''ReplicaSet''\<rparr> @ [\<lparr>Kind = ''StatefulSet''\<rparr>])
                    None,
            Score = 0\<rparr>])
     = [0]"
  by (simp add: scoreByOwnerType_map spec_owner_delta_def spec_ref_delta_def
        sum_list_replicate)

text \<open>
  Claim C5, amended. The owner-type pass adds \<open>-1000\<close> to a candidate without owner
  references, and for each owner reference \<open>+100\<close> (ReplicaSet), \<open>-10000\<close> (StatefulSet,
  DaemonSet) or nothing; the contributions add up. A candidate with a stateful-set or
  daemon-set reference and fewer than 100 replica-set references leaves the pass with a
  smaller score than it had.
\<close>

theorem scoreByOwnerType_delta:
  "scoreByOwnerType s = map (\<lambda>c. c\<lparr>Score := Score c + spec_owner_delta (Pod c)\<rparr>) s
   \<and> (\<forall>i < length s.
         (\<exists>r \<in> set (OwnerReferences (Pod (s ! i))).
            Kind r = ''StatefulSet'' \<or> Kind r = ''DaemonSet'')
         \<and> replica_set_refs (Pod (s ! i)) < 100
         \<longrightarrow> Score (scoreByOwnerType s ! i) < Score (s ! i))"
proof (intro conjI allI impI)
  show "scoreByOwnerType s = map (\<lambda>c. c\<lparr>Score := Score c + spec_owner_delta (Pod c)\<rparr>) s"
    using scoreByOwnerType_map [of s] by (simp add: add_score_def)
next
  fix i
  assume i: "i < length s"
    and a: "(\<exists>r \<in> set (OwnerReferences (Pod (s ! i))).
               Kind r = ''StatefulSet'' \<or> Kind r = ''DaemonSet'')
            \<and> replica_set_refs (Pod (s ! i)) < 100"
  have "spec_owner_delta (Pod (s ! i)) \<le> 100 * int (replica_set_refs (Pod (s ! i))) - 10000"
    using a by (intro spec_owner_delta_veto) simp
  then have "spec_owner_delta (Pod (s ! i)) < 0"
    using a by simp
  then show "Score (scoreByOwnerType s ! i) < Score (s ! i)"
    using i by (simp add: scoreByOwnerType_map)
qed

theorem scoreByOwnerType_delta_witness:
  "map Score
     (scoreByOwnerType
        [\<lparr>Pod = example_pod PodQOSGuaranteed [\<lparr>Kind = ''ReplicaSet''\<rparr>, \<lparr>Kind = ''DaemonSet''\<rparr>]
                  None,
          Score = 0\<rparr>,
         \<lparr>Pod = example_pod PodQOSGuaranteed [] None, Score = 0\<rparr>])
   = [- 9900, - 1000]
   \<and> Score (scoreByOwnerType
        [\<lparr>Pod = example_pod PodQOSGuaranteed [\<lparr>Kind = ''ReplicaSet''\<rparr>, \<lparr>Kind = ''DaemonSet''\<rparr>]
                  None,
          Score = 0\<rparr>,
         \<lparr>Pod = example_pod PodQOSGuaranteed [] None, Score = 0\<rparr>] ! 0) < 0"
  using scoreByOwnerType_delta [of
        "[\<lparr>Pod = example_pod PodQOSGuaranteed [\<lparr>Kind = ''ReplicaSet''\<rparr>, \<lparr>Kind = ''DaemonSet''\<rparr>]
                  None,
          Score = 0\<rparr>,
         \<lparr>Pod = example_pod PodQOSGuaranteed [] None, Score = 0\<rparr>]"]
  by (simp add: spec_owner_delta_def spec_ref_delta_def replica_set_refs_def)

subsection \<open>Vetoes\<close>

text \<open>
  Claim C1, as stated, fails: the passes only add, and every replica-set reference adds
  100. A best-effort pod without start time (age veto, \<open>-10000\<close>) that has 99
  replica-set owner references ends with score \<open>-10000 + 100 + 9900 = 0\<close> and is
  selected.
\<close>

theorem veto_counterexample:
  "spec_vetoed 0 0 (example_pod PodQOSBestEffort (replicate 99 \<lparr>Kind = ''ReplicaSet''\<rparr>) None)
   \<and> map Score
       (score_all 0 0
          (PodCandidateSetFromPodList
             \<lparr>Items = [example_pod PodQOSBestEffort (replicate 99 \<lparr>Kind = ''ReplicaSet''\<rparr>)
                         None]\<rparr>))
     = [0]
   \<and> SelectPodForEviction 0 0
       (PodCandidateSetFromPodList
          \<lparr>Items = [example_pod PodQOSBestEffort (replicate 99 \<lparr>Kind = ''ReplicaSet''\<rparr>)
                      None]\<rparr>)
     = Some (example_pod PodQOSBestEffort (replicate 99 \<lparr>Kind = ''ReplicaSet''\<rparr>) None)"
  by (simp add: spec_vetoed_def SelectPodForEviction_def ranked_def Stable_Reverse_def
        insertionSort_fold score_all_map PodCandidateSetFromPodList_def spec_final_delta_def
        spec_age_delta_def spec_qos_delta_def spec_owner_delta_def spec_ref_delta_def
        spec_criticality_delta_def sum_list_replicate)

text \<open>
  Claim C1, amended. A candidate of a freshly built set whose pod receives at least one
  delta of \<open>-10000\<close> (no start time or too young, a stateful-set or daemon-set owner,
  or one of the criticality conditions) and has at most 98 replica-set owner references
  has a negative final score, and \<^verbatim>\<open>SelectPodForEviction\<close> does not return it.
\<close>

theorem vetoed_candidate_never_selected:
  assumes "spec_vetoed now minPodAge p" and "replica_set_refs p \<le> 98"
  shows "(\<forall>c \<in> set (score_all now minPodAge (PodCandidateSetFromPodList l)).
            Pod c = p \<longrightarrow> Score c < 0)
         \<and> SelectPodForEviction now minPodAge (PodCandidateSetFromPodList l) \<noteq> Some p"
proof -
  have "spec_final_delta now minPodAge p \<le> 100 * int (replica_set_refs p) - 9878"
    using assms(1) by (rule spec_vetoed_final_delta)
  then have neg: "spec_final_delta now minPodAge p < 0"
    using assms(2) by simp
  have scores: "\<forall>c \<in> set (score_all now minPodAge (PodCandidateSetFromPodList l)).
                  Pod c = p \<longrightarrow> Score c < 0"
    using neg by (auto simp add: score_all_map PodCandidateSetFromPodList_def)
  have "SelectPodForEviction now minPodAge (PodCandidateSetFromPodList l) \<noteq> Some p"
  proof
    assume "SelectPodForEviction now minPodAge (PodCandidateSetFromPodList l) = Some p"
    then obtain c where "c \<in> set (ranked now minPodAge (PodCandidateSetFromPodList l))"
      and "Pod c = p" and "0 \<le> Score c"
      unfolding SelectPodForEviction_def by (blast dest: first_non_negative_Some)
    with scores show False by (simp add: set_ranked) force
  qed
  with scores show ?thesis by simp
qed

theorem vetoed_candidate_witness:
  "spec_vetoed (100 * Second) (30 * Second)
     (example_pod PodQOSBestEffort [\<lparr>Kind = ''ReplicaSet''\<rparr>] (Some (98 * Second)))
   \<and> replica_set_refs
       (example_pod PodQOSBestEffort [\<lparr>Kind = ''ReplicaSet''\<rparr>] (Some (98 * Second))) \<le> 98
   \<and> SelectPodForEviction (100 * Second) (30 * Second)
       (PodCandidateSetFromPodList
          \<lparr>Items = [example_pod PodQOSBestEffort [\<lparr>Kind = ''ReplicaSet''\<rparr>]
                      (Some (98 * Second))]\<rparr>)
     \<noteq> Some (example_pod PodQOSBestEffort [\<lparr>Kind = ''ReplicaSet''\<rparr>] (Some (98 * Second)))"
proof -
  have v: "spec_vetoed (100 * Second) (30 * Second)
     (example_pod PodQOSBestEffort [\<lparr>Kind = ''ReplicaSet''\<rparr>] (Some (98 * Second)))"
    by (simp add: spec_vetoed_def Sub_def Second_def Nanosecond_def maxDuration_def
          minDuration_def)
  have r: "replica_set_refs
       (example_pod PodQOSBestEffort [\<lparr>Kind = ''ReplicaSet''\<rparr>] (Some (98 * Second))) \<le> 98"
    by (simp add: replica_set_refs_def)
  show ?thesis
    using v r vetoed_candidate_never_selected [OF v r,
        of "\<lparr>Items = [example_pod PodQOSBestEffort [\<lparr>Kind = ''ReplicaSet''\<rparr>]
                      (Some (98 * Second))]\<rparr>"]
    by blast
qed

subsection \<open>Selection\<close>

lemma floor_ln_ten_days: "\<lfloor>ln (864001::real)\<rfloor> = 13"
  using floor_ln_eqI [of 13 864001] by (simp add: power_divide)

lemma ranked_scenario:
  "ranked scenario_now (30 * Second)
     (PodCandidateSetFromPodList \<lparr>Items = [scenario_B, scenario_C, scenario_A]\<rparr>)
   = [\<lparr>Pod = scenario_A, Score = 213\<rparr>, \<lparr>Pod = scenario_B, Score = - 9800\<rparr>,
      \<lparr>Pod = scenario_C, Score = - 9987\<rparr>]"
  by (simp add: ranked_def Stable_Reverse_def insertionSort_fold score_all_map
        PodCandidateSetFromPodList_def spec_final_delta_def spec_age_delta_def
        spec_qos_delta_def spec_owner_delta_def spec_ref_delta_def spec_criticality_delta_def
        scenario_A_def scenario_B_def scenario_C_def scenario_now_def add_score_def
        Sub_def Second_def Nanosecond_def maxDuration_def minDuration_def
        PodQOSGuaranteed_def PodQOSBestEffort_def PodQOSBurstable_def floor_ln_ten_days)

text \<open>
  Claim C2. \<^verbatim>\<open>SelectPodForEviction\<close> applies the four passes (each candidate's score
  grows by the sum of the four deltas), sorts: the ranked set is a reordering of the scored
  candidates, descending by score; and returns the pod of the first ranked candidate
  whose score is not negative. The result is nil exactly when every final score is
  negative; otherwise it is the pod at the head of the ranking, whose score is the
  largest. Every call returns one of the two.
\<close>

theorem SelectPodForEviction_first_non_negative:
  "score_all now minPodAge s
     = scoreByCriticality (scoreByOwnerType (scoreByQOSClass (scoreByAge now minPodAge s)))
   \<and> score_all now minPodAge s
     = map (\<lambda>c. c\<lparr>Score := Score c + spec_final_delta now minPodAge (Pod c)\<rparr>) s
   \<and> mset (ranked now minPodAge s) = mset (score_all now minPodAge s)
   \<and> sorted_wrt (\<lambda>a b. Score b \<le> Score a) (ranked now minPodAge s)
   \<and> SelectPodForEviction now minPodAge s
     = map_option Pod (find (\<lambda>c. 0 \<le> Score c) (ranked now minPodAge s))
   \<and> ((SelectPodForEviction now minPodAge s = None)
      = (\<forall>c \<in> set (score_all now minPodAge s). Score c < 0))
   \<and> (\<forall>p. SelectPodForEviction now minPodAge s = Some p \<longrightarrow>
         ranked now minPodAge s \<noteq> [] \<and> p = Pod (hd (ranked now minPodAge s))
         \<and> 0 \<le> Score (hd (ranked now minPodAge s))
         \<and> (\<forall>c \<in> set (score_all now minPodAge s).
               Score c \<le> Score (hd (ranked now minPodAge s))))"
proof (intro conjI allI impI)
  show "score_all now minPodAge s
        = scoreByCriticality (scoreByOwnerType (scoreByQOSClass (scoreByAge now minPodAge s)))"
    by (simp add: score_all_def)
  show "score_all now minPodAge s
        = map (\<lambda>c. c\<lparr>Score := Score c + spec_final_delta now minPodAge (Pod c)\<rparr>) s"
    using score_all_map [of now minPodAge s] by (simp add: add_score_def)
  show "mset (ranked now minPodAge s) = mset (score_all now minPodAge s)"
    by (simp add: ranked_def Stable_Reverse_def mset_insertionSort)
  show sorted: "sorted_wrt (\<lambda>a b. Score b \<le> Score a) (ranked now minPodAge s)"
    by (simp add: ranked_def Stable_Reverse_def sorted_insertionSort)
  show "SelectPodForEviction now minPodAge s
        = map_option Pod (find (\<lambda>c. 0 \<le> Score c) (ranked now minPodAge s))"
    by (simp add: SelectPodForEviction_def first_non_negative_find)
  show "(SelectPodForEviction now minPodAge s = None)
        = (\<forall>c \<in> set (score_all now minPodAge s). Score c < 0)"
    by (simp add: SelectPodForEviction_def first_non_negative_None set_ranked)
  fix p
  assume "SelectPodForEviction now minPodAge s = Some p"
  then have sel: "first_non_negative (ranked now minPodAge s) = Some p"
    by (simp add: SelectPodForEviction_def)
  from first_non_negative_sorted [OF sorted sel]
  show "ranked now minPodAge s \<noteq> []" "p = Pod (hd (ranked now minPodAge s))"
    "0 \<le> Score (hd (ranked now minPodAge s))"
    "\<forall>c \<in> set (score_all now minPodAge s). Score c \<le> Score (hd (ranked now minPodAge s))"
    by (simp_all add: set_ranked)
qed

theorem SelectPodForEviction_scenario_witness:
  "SelectPodForEviction scenario_now (30 * Second)
     (PodCandidateSetFromPodList \<lparr>Items = [scenario_B, scenario_C, scenario_A]\<rparr>)
   = Some scenario_A
   \<and> map Score
       (ranked scenario_now (30 * Second)
          (PodCandidateSetFromPodList \<lparr>Items = [scenario_B, scenario_C, scenario_A]\<rparr>))
     = [213, - 9800, - 9987]"
  using SelectPodForEviction_first_non_negative [of scenario_now "30 * Second"
      "PodCandidateSetFromPodList \<lparr>Items = [scenario_B, scenario_C, scenario_A]\<rparr>"]
  by (simp add: ranked_scenario)

end
